theory Spec2Isabelle
  imports Complex_Main
begin

section \<open>Python values of the insults agents\<close>

text \<open>
  The exceptions the embedded code can raise. \<open>ExternalError\<close> stands for any
  failure inside Keras, scikit-learn or numpy, which the agents pass on unchanged.
\<close>

datatype error =
    RuntimeError
  | IndexError
  | KeyError
  | TypeError
  | ValueError
  | AttributeError
  | ZeroDivisionError
  | FileNotFoundError
  | ExternalError

text \<open>
  An observation is a Python dict. The code reads three of its keys, \<open>'text'\<close>,
  \<open>'labels'\<close> and \<open>'episode_done'\<close>; a key that is absent is \<open>None\<close> here.
\<close>

record observation =
  obs_text :: "string option"
  obs_labels :: "string list option"
  obs_episode_done :: "bool option"

text \<open>
  The fields every agent class sets in \<open>__init__\<close>: \<open>self.id\<close>,
  \<open>self.episode_done\<close> (initially \<open>True\<close>), \<open>self.is_shared\<close>,
  \<open>self.n_examples\<close> and \<open>self.observation\<close> (\<open>None\<close> until the first
  \<open>observe\<close>).
\<close>

record shell =
  agent_id :: string
  episode_done :: bool
  is_shared :: bool
  n_examples :: nat
  last_observation :: "observation option"

section \<open>observe\<close>

text \<open>
  \<open>observe\<close> has the same body in \<open>EnsembleInsultsAgent\<close>,
  \<open>BoostEnsembleInsultsAgent\<close> and \<open>InsultsAgent\<close> (inherited by
  \<open>OneEpochAgent\<close>). The agent after the call is returned beside the result:
  \<open>self.observation\<close> is assigned before \<open>observation['episode_done']\<close> is read,
  so a missing flag raises with the observation already stored.
\<close>

definition observe ::
  "'a shell_scheme \<Rightarrow> observation \<Rightarrow> (error + observation) \<times> 'a shell_scheme" where
  "observe self observation =
     (case (if \<not> episode_done self then
              (case last_observation self of
                 None \<Rightarrow> Inl TypeError
               | Some prev \<Rightarrow>
                   (case obs_text prev of
                      None \<Rightarrow> Inl KeyError
                    | Some prev_dialogue \<Rightarrow>
                        (case obs_text observation of
                           None \<Rightarrow> Inl KeyError
                         | Some t \<Rightarrow>
                             Inr (observation\<lparr>obs_text :=
                                    Some (prev_dialogue @ [CHR 0x0A] @ t)\<rparr>))))
            else Inr observation) of
        Inl e \<Rightarrow> (Inl e, self)
      | Inr ob \<Rightarrow>
          (case obs_episode_done ob of
             None \<Rightarrow> (Inl KeyError, self\<lparr>last_observation := Some ob\<rparr>)
           | Some d \<Rightarrow>
               (Inr ob, self\<lparr>last_observation := Some ob, episode_done := d\<rparr>)))"

text \<open>A sequence of \<open>observe\<close> calls on one agent, each on the agent the last one left.\<close>

fun observe_all :: "'a shell_scheme \<Rightarrow> observation list \<Rightarrow> 'a shell_scheme" where
  "observe_all self [] = self"
| "observe_all self (ob # obs) = observe_all (snd (observe self ob)) obs"

text \<open>Python's \<open>sep.join(xs)\<close>, the form in which the specification states the history.\<close>

fun join :: "string \<Rightarrow> string list \<Rightarrow> string" where
  "join sep [] = []"
| "join sep [x] = x"
| "join sep (x # y # ys) = x @ sep @ join sep (y # ys)"

text \<open>The text stored in the agent, when an observation is stored and has one.\<close>

definition stored_text :: "'a shell_scheme \<Rightarrow> string option" where
  "stored_text self =
     (case last_observation self of None \<Rightarrow> None | Some ob \<Rightarrow> obs_text ob)"

text \<open>The observations of one episode: each has a text and an end-of-episode flag, and
  the flag is false on all but the last.\<close>

fun single_episode :: "observation list \<Rightarrow> bool" where
  "single_episode [] = False"
| "single_episode [ob] = (obs_text ob \<noteq> None \<and> obs_episode_done ob \<noteq> None)"
| "single_episode (ob # obs) =
     (obs_text ob \<noteq> None \<and> obs_episode_done ob = Some False \<and> single_episode obs)"

definition texts_of :: "observation list \<Rightarrow> string list" where
  "texts_of obs = map (\<lambda>ob. case obs_text ob of None \<Rightarrow> [] | Some t \<Rightarrow> t) obs"

section \<open>Floating-point numbers\<close>

text \<open>
  The coefficients are Python floats and the predictions are numpy floats. Python and
  numpy compute on IEEE binary64 values with rounding to nearest, ties to even; Keras
  returns float32 scores, which numpy 1.x, the generation of the library this code
  runs on, widens to binary64 without change before it multiplies them by a Python
  float. A value here is a real number that stands for a finite binary64 value, or one
  of the three special values. The two zeros are not told apart: no divisor of the
  code is a negative zero (a sum that starts from \<open>0\<close> never is one), and a zero
  compares the same with either sign.
\<close>

datatype float64 = Fin real | PosInf | NegInf | NaN

text \<open>The number of binary digits of a natural number.\<close>

fun bit_length :: "nat \<Rightarrow> nat" where
  "bit_length n = (if n = 0 then 0 else Suc (bit_length (n div 2)))"

declare bit_length.simps [simp del]

text \<open>The binary exponent of a real number that is not zero: \<open>e\<close> with
  \<open>2\<^sup>e \<le> |x| < 2\<^sup>e\<^sup>+\<^sup>1\<close>.\<close>

definition exponent :: "real \<Rightarrow> int" where
  "exponent x =
     (if 1 \<le> \<bar>x\<bar> then int (bit_length (nat \<lfloor>\<bar>x\<bar>\<rfloor>)) - 1
      else - int (bit_length (nat (\<lceil>1 / \<bar>x\<bar>\<rceil> - 1))))"

definition pow2 :: "int \<Rightarrow> real" where
  "pow2 k = (if 0 \<le> k then 2 ^ nat k else 1 / 2 ^ nat (- k))"

definition round_half_even :: "real \<Rightarrow> int" where
  "round_half_even y =
     (let f = \<lfloor>y\<rfloor>; d = y - of_int f
      in if d < 1 / 2 then f
         else if 1 / 2 < d then f + 1
         else if even f then f else f + 1)"

text \<open>
  Rounding a real number to binary64: 53 significant bits, the spacing of the
  subnormal numbers below \<open>2\<^sup>-\<^sup>1\<^sup>0\<^sup>2\<^sup>2\<close>, and an infinity when the rounded value reaches
  \<open>2\<^sup>1\<^sup>0\<^sup>2\<^sup>4\<close>. \<open>float(s)\<close> of a decimal string is this rounding of the number
  written.
\<close>

definition rnd :: "real \<Rightarrow> float64" where
  "rnd x =
     (if x = 0 then Fin 0
      else
        (let q = pow2 (max (exponent x) (- 1022) - 52);
             r = of_int (round_half_even (x / q)) * q
         in if 2 ^ 1024 \<le> r then PosInf
            else if r \<le> - (2 ^ 1024) then NegInf
            else Fin r))"

text \<open>Addition, multiplication and division of binary64 values. Neither Python's
  \<open>+\<close> and \<open>*\<close> on floats nor numpy's \<open>/\<close> raises: an overflow and a division by
  zero give an infinity or \<open>nan\<close>.\<close>

fun fl_add :: "float64 \<Rightarrow> float64 \<Rightarrow> float64" where
  "fl_add (Fin a) (Fin b) = rnd (a + b)"
| "fl_add NaN y = NaN"
| "fl_add x NaN = NaN"
| "fl_add PosInf NegInf = NaN"
| "fl_add NegInf PosInf = NaN"
| "fl_add PosInf y = PosInf"
| "fl_add x PosInf = PosInf"
| "fl_add NegInf y = NegInf"
| "fl_add x NegInf = NegInf"

text \<open>An infinity with the sign of a real number, \<open>nan\<close> for zero.\<close>

definition signed_inf :: "real \<Rightarrow> float64" where
  "signed_inf a = (if 0 < a then PosInf else if a < 0 then NegInf else NaN)"

fun fl_mul :: "float64 \<Rightarrow> float64 \<Rightarrow> float64" where
  "fl_mul (Fin a) (Fin b) = rnd (a * b)"
| "fl_mul NaN y = NaN"
| "fl_mul x NaN = NaN"
| "fl_mul PosInf (Fin b) = signed_inf b"
| "fl_mul (Fin a) PosInf = signed_inf a"
| "fl_mul NegInf (Fin b) = signed_inf (- b)"
| "fl_mul (Fin a) NegInf = signed_inf (- a)"
| "fl_mul PosInf PosInf = PosInf"
| "fl_mul NegInf NegInf = PosInf"
| "fl_mul PosInf NegInf = NegInf"
| "fl_mul NegInf PosInf = NegInf"

fun fl_div :: "float64 \<Rightarrow> float64 \<Rightarrow> float64" where
  "fl_div (Fin a) (Fin b) = (if b \<noteq> 0 then rnd (a / b) else signed_inf a)"
| "fl_div NaN y = NaN"
| "fl_div x NaN = NaN"
| "fl_div (Fin a) PosInf = Fin 0"
| "fl_div (Fin a) NegInf = Fin 0"
| "fl_div PosInf (Fin b) = (if 0 \<le> b then PosInf else NegInf)"
| "fl_div NegInf (Fin b) = (if 0 \<le> b then NegInf else PosInf)"
| "fl_div x y = NaN"

text \<open>The comparison \<open>ex > 0.5\<close>: false on \<open>nan\<close> and \<open>-inf\<close>, true on \<open>inf\<close>.\<close>

fun gt_half :: "float64 \<Rightarrow> bool" where
  "gt_half (Fin x) = (1 / 2 < x)"
| "gt_half PosInf = True"
| "gt_half NegInf = False"
| "gt_half NaN = False"

definition predictions2text :: "float64 list \<Rightarrow> string list" where
  "predictions2text predictions =
     map (\<lambda>ex. if gt_half ex then ''Insult'' else ''Non-insult'') predictions"

section \<open>Examples and batches\<close>

record example =
  question :: string
  ex_labels :: "string list option"

text \<open>\<open>_build_ex\<close>, the same in the three agent classes and in \<open>InsultsModel\<close>:
  \<open>None\<close> for an observation with no \<open>'text'\<close>.\<close>

definition build_ex :: "observation \<Rightarrow> example option" where
  "build_ex ex =
     (case obs_text ex of
        None \<Rightarrow> None
      | Some t \<Rightarrow> Some \<lparr>question = t, ex_labels = obs_labels ex\<rparr>)"

text \<open>The question that \<open>act\<close> hands to the feature pipeline: \<open>_build_ex\<close> of the
  stored observation.\<close>

definition act_question :: "'a shell_scheme \<Rightarrow> string option" where
  "act_question self =
     (case last_observation self of
        None \<Rightarrow> None
      | Some ob \<Rightarrow> map_option question (build_ex ob))"

text \<open>
  What is handed to the library. \<open>_batchify\<close> returns \<open>None\<close>, the questions, or
  the questions with the 0/1 labels; for the neural family the questions stand for the
  embedding tensor that \<open>create_batch\<close> builds from them. Unpacking a batch in
  \<open>update\<close> gives the questions and the labels of a labelled batch, or the two rows of
  a batch of two questions.
\<close>

datatype batch =
    NoBatch
  | Questions "string list"
  | Labelled "string list" "nat list"
  | Row string
  | Labels "nat list"

datatype model_type = NN | Ngrams

text \<open>
  The keys of the options dict that decide how an adapter is constructed:
  \<open>'model_file'\<close> and \<open>'pretrained_model'\<close> (read with \<open>get\<close>, so \<open>None\<close> when
  absent), \<open>'no_cuda'\<close>, and \<open>'cuda'\<close>, which \<open>__init__\<close> writes. The hyperparameters
  (kernel sizes, seeds, learning rate and so on) only reach the library and are taken
  to be present and well formed.
\<close>

record opt =
  opt_model_file :: "string option"
  opt_pretrained_model :: "string option"
  opt_no_cuda :: bool
  opt_cuda :: "bool option"

text \<open>
  The fields of \<open>InsultsModel\<close>. \<open>model_opt\<close> is \<open>self.opt\<close> and \<open>model_object\<close> is
  \<open>self.model\<close>, the Keras or scikit-learn object (\<open>None\<close>: the attribute was never
  set); \<open>vectorizers\<close> stands for \<open>self.vectorizers\<close> and \<open>self.selectors\<close>.
\<close>

record ('w, 'v) insults_model =
  model_name :: string
  model_type :: "model_type option"
  from_saved :: bool
  model_opt :: opt
  model_object :: "'w option"
  vectorizers :: "'v option"
  updates :: nat

text \<open>
  The calls into Keras, scikit-learn and the metrics module are parameters.
  \<open>predict_on_batch\<close> is the Keras call with its \<open>reshape(-1)\<close>; \<open>predict_proba\<close> is
  \<open>vectorize_select_from_data\<close> followed by scikit-learn's \<open>predict_proba\<close> and the
  choice of its second column. \<open>train_on_batch\<close> is the Keras training step and
  \<open>fit\<close> is \<open>vectorize_select_from_data\<close> followed by scikit-learn's \<open>fit\<close>; both
  give the object as training leaves it. \<open>roc_auc_score\<close>, \<open>binary_crossentropy\<close> and
  \<open>binary_accuracy\<close> compute the statistics of the last batch.
  \<open>new_model\<close> is \<open>log_reg_model\<close>, \<open>svc_model\<close>, \<open>cnn_word_model\<close> or
  \<open>lstm_word_model\<close> by the model's name (compiled, for the neural family), and
  \<open>load_weights\<close> gives a built model the weights read from a file.
\<close>

record ('w, 'v) backend =
  new_model :: "string \<Rightarrow> opt \<Rightarrow> 'w"
  load_weights :: "'w \<Rightarrow> 'w \<Rightarrow> 'w"
  predict_on_batch :: "'w \<Rightarrow> batch \<Rightarrow> error + float64 list"
  predict_proba :: "'w \<Rightarrow> 'v option \<Rightarrow> batch \<Rightarrow> error + float64 list"
  train_on_batch :: "'w \<Rightarrow> batch \<Rightarrow> batch \<Rightarrow> error + 'w"
  fit :: "'w \<Rightarrow> 'v option \<Rightarrow> batch \<Rightarrow> batch \<Rightarrow> error + 'w"
  roc_auc_score :: "batch \<Rightarrow> float64 list \<Rightarrow> error + float64"
  binary_crossentropy :: "batch \<Rightarrow> float64 list \<Rightarrow> error + float64"
  binary_accuracy :: "batch \<Rightarrow> float64 list \<Rightarrow> error + float64"

text \<open>\<open>[1 if ex['labels'][0] == 'Insult' else 0 for ex in batch]\<close>: the first example
  with no labels, or with an empty list of labels, raises.\<close>

fun labels_y :: "example list \<Rightarrow> error + nat list" where
  "labels_y [] = Inr []"
| "labels_y (ex # exs) =
     (case ex_labels ex of
        None \<Rightarrow> Inl KeyError
      | Some [] \<Rightarrow> Inl IndexError
      | Some (l # _) \<Rightarrow>
          (case labels_y exs of
             Inl e \<Rightarrow> Inl e
           | Inr y \<Rightarrow> Inr ((if l = ''Insult'' then 1 else 0) # y)))"

text \<open>The body the two branches of \<open>_batchify\<close> share: \<open>len(batch[0]) == 2\<close> holds when
  the first example has labels, and \<open>batch[0]\<close> raises on an empty batch.\<close>

definition batchify_branch :: "example list \<Rightarrow> error + batch" where
  "batchify_branch exs =
     (case exs of
        [] \<Rightarrow> Inl IndexError
      | ex0 # _ \<Rightarrow>
          (if ex_labels ex0 \<noteq> None then
             (case labels_y exs of
                Inl e \<Rightarrow> Inl e
              | Inr y \<Rightarrow> Inr (Labelled (map question exs) y))
           else Inr (Questions (map question exs))))"

definition batchify :: "('w, 'v) insults_model \<Rightarrow> example list \<Rightarrow> error + batch" where
  "batchify m exs =
     (case model_type m of
        Some NN \<Rightarrow> batchify_branch exs
      | Some Ngrams \<Rightarrow> batchify_branch exs
      | None \<Rightarrow> Inr NoBatch)"

text \<open>\<open>InsultsModel.predict\<close>: \<open>None\<close> when the model type is neither family.\<close>

definition predict ::
  "('w, 'v) backend \<Rightarrow> ('w, 'v) insults_model \<Rightarrow> batch \<Rightarrow> error + float64 list option" where
  "predict be m b =
     (case model_type m of
        Some NN \<Rightarrow>
          (case model_object m of
             None \<Rightarrow> Inl AttributeError
           | Some w \<Rightarrow>
               (case predict_on_batch be w b of Inl e \<Rightarrow> Inl e | Inr ps \<Rightarrow> Inr (Some ps)))
      | Some Ngrams \<Rightarrow>
          (case model_object m of
             None \<Rightarrow> Inl AttributeError
           | Some w \<Rightarrow>
               (case predict_proba be w (vectorizers m) b of
                  Inl e \<Rightarrow> Inl e
                | Inr ps \<Rightarrow> Inr (Some ps)))
      | None \<Rightarrow> Inr None)"

text \<open>\<open>x, y = batch\<close>: a pair unpacks into the questions and the labels, \<open>None\<close>
  does not unpack, and a sequence of questions unpacks only when there are exactly two
  of them, into two rows. \<open>_batchify\<close> returns nothing else.\<close>

definition unpack :: "batch \<Rightarrow> error + batch \<times> batch" where
  "unpack b =
     (case b of
        NoBatch \<Rightarrow> Inl TypeError
      | Questions qs \<Rightarrow>
          (case qs of [q0, q1] \<Rightarrow> Inr (Row q0, Row q1) | _ \<Rightarrow> Inl ValueError)
      | Labelled x y \<Rightarrow> Inr (Questions x, Labels y)
      | Row q \<Rightarrow> Inl ValueError
      | Labels y \<Rightarrow> Inl ValueError)"

text \<open>
  \<open>InsultsModel.update\<close>, with the model after the call: the training call, the
  prediction on the same questions with the trained object, the statistics, and the
  count of updates. An exception leaves what was assigned before it; a training call
  that fails is taken to leave the model object as it was. The values of the loss,
  the accuracy and the AUC are stored in fields no claim reads and are left out.
\<close>

definition update ::
  "('w, 'v) backend \<Rightarrow> ('w, 'v) insults_model \<Rightarrow> batch \<Rightarrow>
     (error + float64 list option) \<times> ('w, 'v) insults_model" where
  "update be m b =
     (case unpack b of
        Inl e \<Rightarrow> (Inl e, m)
      | Inr (x, y) \<Rightarrow>
          (case model_type m of
             Some NN \<Rightarrow>
               (case model_object m of
                  None \<Rightarrow> (Inl AttributeError, m)
                | Some w \<Rightarrow>
                    (case train_on_batch be w x y of
                       Inl e \<Rightarrow> (Inl e, m)
                     | Inr w' \<Rightarrow>
                         (let m = m\<lparr>model_object := Some w'\<rparr>
                          in case predict_on_batch be w' x of
                               Inl e \<Rightarrow> (Inl e, m)
                             | Inr y_pred \<Rightarrow>
                                 (case roc_auc_score be y y_pred of
                                    Inl e \<Rightarrow> (Inl e, m)
                                  | Inr _ \<Rightarrow>
                                      (Inr (Some y_pred),
                                       m\<lparr>updates := updates m + 1\<rparr>)))))
           | Some Ngrams \<Rightarrow>
               (case model_object m of
                  None \<Rightarrow> (Inl AttributeError, m)
                | Some w \<Rightarrow>
                    (case fit be w (vectorizers m) x y of
                       Inl e \<Rightarrow> (Inl e, m)
                     | Inr w' \<Rightarrow>
                         (let m = m\<lparr>model_object := Some w'\<rparr>
                          in case predict_proba be w' (vectorizers m) x of
                               Inl e \<Rightarrow> (Inl e, m)
                             | Inr y_pred \<Rightarrow>
                                 (case binary_crossentropy be y y_pred of
                                    Inl e \<Rightarrow> (Inl e, m)
                                  | Inr _ \<Rightarrow>
                                      (case binary_accuracy be y y_pred of
                                         Inl e \<Rightarrow> (Inl e, m)
                                       | Inr _ \<Rightarrow>
                                           (case roc_auc_score be y y_pred of
                                              Inl e \<Rightarrow> (Inl e, m)
                                            | Inr _ \<Rightarrow>
                                                (Inr (Some y_pred),
                                                 m\<lparr>updates := updates m + 1\<rparr>)))))))
           | None \<Rightarrow> (Inr None, m\<lparr>updates := updates m + 1\<rparr>)))"

section \<open>Replies\<close>

text \<open>A reply is a dict with \<open>'id'\<close> and, once a prediction is written, \<open>'text'\<close> and
  \<open>'score'\<close>.\<close>

record reply =
  reply_id :: string
  reply_text :: "string option"
  reply_score :: "float64 option"

definition new_replies :: "string \<Rightarrow> nat \<Rightarrow> reply list" where
  "new_replies ident batch_size =
     replicate batch_size \<lparr>reply_id = ident, reply_text = None, reply_score = None\<rparr>"

text \<open>\<open>valid_inds\<close>: the positions whose observation gave an example.\<close>

definition valid_inds_of :: "example option list \<Rightarrow> nat list" where
  "valid_inds_of examples = filter (\<lambda>i. examples ! i \<noteq> None) [0..<length examples]"

definition not_none :: "'a option list \<Rightarrow> 'a list" where
  "not_none xs = concat (map (\<lambda>x. case x of None \<Rightarrow> [] | Some y \<Rightarrow> [y]) xs)"

section \<open>EnsembleInsultsAgent\<close>

record ('w, 'v) ensemble_agent = shell +
  models :: "('w, 'v) insults_model list"
  model_coefs :: "float64 list"

text \<open>The loop of \<open>weighted_sum\<close>: \<open>self.model_coefs[j]\<close> raises when there are more
  predictions than coefficients.\<close>

fun weighted_loop :: "float64 list \<Rightarrow> float64 list \<Rightarrow> float64 \<Rightarrow> error + float64" where
  "weighted_loop coefs [] result = Inr result"
| "weighted_loop [] (p # ps) result = Inl IndexError"
| "weighted_loop (c # cs) (p # ps) result =
     weighted_loop cs ps (fl_add result (fl_mul c p))"

text \<open>Python's \<open>sum\<close>: the additions from \<open>0\<close>, left to right.\<close>

definition py_sum :: "float64 list \<Rightarrow> float64" where
  "py_sum xs = foldl fl_add (Fin 0) xs"

text \<open>
  \<open>weighted_sum\<close>. With no prediction \<open>result\<close> is still the Python integer \<open>0\<close>, and
  dividing it by a zero sum raises; with a prediction it is a numpy float, whose
  division does not.
\<close>

definition weighted_sum :: "float64 list \<Rightarrow> float64 list \<Rightarrow> error + float64" where
  "weighted_sum coefs predictions =
     (case weighted_loop coefs predictions (Fin 0) of
        Inl e \<Rightarrow> Inl e
      | Inr result \<Rightarrow>
          (if predictions = [] \<and> py_sum coefs = Fin 0 then Inl ZeroDivisionError
           else Inr (fl_div result (py_sum coefs))))"

text \<open>\<open>for i in range(len(prediction)): predictions[valid_inds[i]].append(prediction[i])\<close>\<close>

fun scatter ::
  "nat list \<Rightarrow> float64 list \<Rightarrow> float64 list list \<Rightarrow> error + float64 list list" where
  "scatter inds [] predictions = Inr predictions"
| "scatter [] (p # ps) predictions = Inl IndexError"
| "scatter (i # inds) (p # ps) predictions =
     scatter inds ps (predictions[i := predictions ! i @ [p]])"

text \<open>The loop over \<open>self.models\<close>; \<open>len(prediction)\<close> raises on \<open>None\<close>.\<close>

fun run_models ::
  "('w, 'v) backend \<Rightarrow> observation list \<Rightarrow> ('w, 'v) insults_model list \<Rightarrow>
     float64 list list \<Rightarrow> error + float64 list list" where
  "run_models be observations [] predictions = Inr predictions"
| "run_models be observations (m # ms) predictions =
     (let examples = map build_ex observations;
          valid_inds = valid_inds_of examples
      in case batchify m (not_none examples) of
           Inl e \<Rightarrow> Inl e
         | Inr b \<Rightarrow>
             (case predict be m b of
                Inl e \<Rightarrow> Inl e
              | Inr None \<Rightarrow> Inl TypeError
              | Inr (Some prediction) \<Rightarrow>
                  (case scatter valid_inds prediction predictions of
                     Inl e \<Rightarrow> Inl e
                   | Inr predictions' \<Rightarrow> run_models be observations ms predictions')))"

text \<open>The last loop of \<open>batch_act\<close>, over the replies and the predictions of each
  position.\<close>

fun combine ::
  "float64 list \<Rightarrow> reply list \<Rightarrow> float64 list list \<Rightarrow> error + reply list" where
  "combine coefs (r # rs) (ps # pss) =
     (if ps \<noteq> [] then
        (case weighted_sum coefs ps of
           Inl e \<Rightarrow> Inl e
         | Inr prediction \<Rightarrow>
             (case combine coefs rs pss of
                Inl e \<Rightarrow> Inl e
              | Inr rs' \<Rightarrow>
                  Inr (r\<lparr>reply_text := Some (hd (predictions2text [prediction])),
                         reply_score := Some prediction\<rparr> # rs')))
      else
        (case combine coefs rs pss of
           Inl e \<Rightarrow> Inl e
         | Inr rs' \<Rightarrow> Inr (r # rs')))"
| "combine coefs rs pss = Inr rs"

definition ensemble_batch_act ::
  "('w, 'v) backend \<Rightarrow> ('w, 'v, 'a) ensemble_agent_scheme \<Rightarrow> observation list \<Rightarrow>
     (error + reply list) \<times> ('w, 'v, 'a) ensemble_agent_scheme" where
  "ensemble_batch_act be self observations =
     (if is_shared self then (Inl RuntimeError, self)
      else
        (let batch_size = length observations;
             batch_reply = new_replies (agent_id self) batch_size
         in case run_models be observations (models self) (replicate batch_size []) of
              Inl e \<Rightarrow> (Inl e, self)
            | Inr predictions \<Rightarrow> (combine (model_coefs self) batch_reply predictions, self)))"

section \<open>InsultsAgent and OneEpochAgent\<close>

record ('w, 'v) insults_agent = shell +
  model :: "('w, 'v) insults_model"

text \<open>\<open>for i in range(len(predictions))\<close>, writing \<open>'text'\<close> and \<open>'score'\<close> at
  \<open>valid_inds[i]\<close>.\<close>

fun write_replies :: "nat list \<Rightarrow> float64 list \<Rightarrow> reply list \<Rightarrow> error + reply list" where
  "write_replies inds [] batch_reply = Inr batch_reply"
| "write_replies [] (p # ps) batch_reply = Inl IndexError"
| "write_replies (i # inds) (p # ps) batch_reply =
     write_replies inds ps
       (batch_reply[i := (batch_reply ! i)
          \<lparr>reply_text := Some (hd (predictions2text [p])),
           reply_score := Some p\<rparr>])"

text \<open>What follows \<open>update\<close> or \<open>predict\<close> in either branch: \<open>_predictions2text\<close>
  raises on \<open>None\<close>.\<close>

definition reply_with ::
  "nat list \<Rightarrow> reply list \<Rightarrow> error + float64 list option \<Rightarrow> error + reply list" where
  "reply_with valid_inds batch_reply r =
     (case r of
        Inl e \<Rightarrow> Inl e
      | Inr None \<Rightarrow> Inl TypeError
      | Inr (Some predictions) \<Rightarrow> write_replies valid_inds predictions batch_reply)"

definition insults_batch_act ::
  "('w, 'v) backend \<Rightarrow> ('w, 'v, 'a) insults_agent_scheme \<Rightarrow> observation list \<Rightarrow>
     (error + reply list) \<times> ('w, 'v, 'a) insults_agent_scheme" where
  "insults_batch_act be self observations =
     (if is_shared self then (Inl RuntimeError, self)
      else
        (let batch_size = length observations;
             batch_reply = new_replies (agent_id self) batch_size;
             examples = map build_ex observations;
             valid_inds = valid_inds_of examples;
             examples = not_none examples
         in case observations of
              [] \<Rightarrow> (Inl IndexError, self)
            | ob0 # _ \<Rightarrow>
                (if obs_labels ob0 \<noteq> None then
                   (let self = self\<lparr>n_examples := n_examples self + length examples\<rparr>
                    in case batchify (model self) examples of
                         Inl e \<Rightarrow> (Inl e, self)
                       | Inr b \<Rightarrow>
                           (case update be (model self) b of
                              (r, m') \<Rightarrow>
                                (reply_with valid_inds batch_reply r, self\<lparr>model := m'\<rparr>)))
                 else
                   (case batchify (model self) examples of
                      Inl e \<Rightarrow> (Inl e, self)
                    | Inr b \<Rightarrow>
                        (reply_with valid_inds batch_reply (predict be (model self) b),
                         self)))))"

text \<open>\<open>all_observations\<close> is \<open>self.observations_\<close>.\<close>

record ('w, 'v) one_epoch_agent = "('w, 'v) insults_agent" +
  all_observations :: "observation list"

text \<open>\<open>OneEpochAgent.batch_act\<close>: the observations are appended to
  \<open>self.observations_\<close> first. \<open>.reshape(-1)\<close> on \<open>None\<close> raises.\<close>

definition one_epoch_batch_act ::
  "('w, 'v) backend \<Rightarrow> ('w, 'v, 'a) one_epoch_agent_scheme \<Rightarrow> observation list \<Rightarrow>
     (error + reply list) \<times> ('w, 'v, 'a) one_epoch_agent_scheme" where
  "one_epoch_batch_act be self0 observations =
     (let self = self0\<lparr>all_observations := all_observations self0 @ observations\<rparr>
      in if is_shared self then (Inl RuntimeError, self)
         else
           (let batch_size = length observations;
                batch_reply = new_replies (agent_id self) batch_size;
                examples = map build_ex observations;
                valid_inds = valid_inds_of examples;
                examples = not_none examples
            in case observations of
                 [] \<Rightarrow> (Inl IndexError, self)
               | ob0 # _ \<Rightarrow>
                   (if obs_labels ob0 \<noteq> None then
                      (Inr batch_reply,
                       self\<lparr>n_examples := n_examples self + length examples\<rparr>)
                    else
                      (case batchify (model self) examples of
                         Inl e \<Rightarrow> (Inl e, self)
                       | Inr b \<Rightarrow>
                           (case predict be (model self) b of
                              Inl e \<Rightarrow> (Inl e, self)
                            | Inr None \<Rightarrow> (Inl AttributeError, self)
                            | Inr (Some predictions) \<Rightarrow>
                                (write_replies valid_inds predictions batch_reply, self))))))"

text \<open>
  \<open>act\<close> is \<open>self.batch_act([self.observation])[0]\<close>. On an agent that has observed
  nothing \<open>self.observation\<close> is \<open>None\<close>: the shared-mode check raises first, and
  otherwise \<open>_build_ex(None)\<close> raises, which the ensemble calls once per model.
  \<open>OneEpochAgent\<close> starts from the empty string instead of \<open>None\<close>; its \<open>act\<close> is
  not embedded.
\<close>

definition first_reply :: "error + reply list \<Rightarrow> error + reply" where
  "first_reply r =
     (case r of
        Inl e \<Rightarrow> Inl e
      | Inr [] \<Rightarrow> Inl IndexError
      | Inr (x # _) \<Rightarrow> Inr x)"

definition ensemble_act ::
  "('w, 'v) backend \<Rightarrow> ('w, 'v, 'a) ensemble_agent_scheme \<Rightarrow>
     (error + reply) \<times> ('w, 'v, 'a) ensemble_agent_scheme" where
  "ensemble_act be self =
     (case last_observation self of
        None \<Rightarrow>
          (if is_shared self then (Inl RuntimeError, self)
           else if models self = [] then (first_reply (Inr (new_replies (agent_id self) 1)), self)
           else (Inl TypeError, self))
      | Some ob \<Rightarrow>
          (case ensemble_batch_act be self [ob] of (r, self') \<Rightarrow> (first_reply r, self')))"

definition insults_act ::
  "('w, 'v) backend \<Rightarrow> ('w, 'v, 'a) insults_agent_scheme \<Rightarrow>
     (error + reply) \<times> ('w, 'v, 'a) insults_agent_scheme" where
  "insults_act be self =
     (case last_observation self of
        None \<Rightarrow> (if is_shared self then (Inl RuntimeError, self) else (Inl TypeError, self))
      | Some ob \<Rightarrow>
          (case insults_batch_act be self [ob] of (r, self') \<Rightarrow> (first_reply r, self')))"

section \<open>Constructing an InsultsModel\<close>

text \<open>
  The files \<open>__init__\<close> looks for and reads: a path either is no file, or holds a
  configuration as JSON, or a serialised model object (weights or a pickled
  classifier), or anything else.
\<close>

datatype 'w saved_file = JsonFile opt | ObjectFile 'w | OtherFile

definition isfile :: "(string \<Rightarrow> 'w saved_file option) \<Rightarrow> string \<Rightarrow> bool" where
  "isfile files path = (files path \<noteq> None)"

text \<open>Python's truth value of \<open>opt.get(key)\<close>: false for \<open>None\<close> and for the empty string.\<close>

definition truthy :: "string option \<Rightarrow> bool" where
  "truthy v = (case v of None \<Rightarrow> False | Some p \<Rightarrow> p \<noteq> [])"

text \<open>The two \<open>if\<close> statements of \<open>__init__\<close> that set \<open>self.model_type\<close>.\<close>

definition model_type_of :: "string \<Rightarrow> model_type option" where
  "model_type_of name =
     (let model_type = None;
          model_type = (if name = ''cnn_word'' \<or> name = ''lstm_word'' then Some NN
                        else model_type);
          model_type = (if name = ''log_reg'' \<or> name = ''svc'' then Some Ngrams
                        else model_type)
      in model_type)"

text \<open>The nine files the condition of \<open>__init__\<close> asks for in the n-gram family, in
  the order it tests them.\<close>

definition ngrams_files :: "string \<Rightarrow> string list" where
  "ngrams_files model_file =
     [model_file @ ''_opt.json'',
      model_file @ ''_cls.pkl'',
      model_file @ ''_ngrams_vect_special.bin'',
      model_file @ ''_ngrams_vect_general_0.bin'',
      model_file @ ''_ngrams_vect_general_1.bin'',
      model_file @ ''_ngrams_vect_general_2.bin'',
      model_file @ ''_ngrams_vect_general_3.bin'',
      model_file @ ''_ngrams_vect_general_4.bin'',
      model_file @ ''_ngrams_vect_general_5.bin'']"

definition saved_model_exists ::
  "(string \<Rightarrow> 'w saved_file option) \<Rightarrow> opt \<Rightarrow> model_type option \<Rightarrow> bool" where
  "saved_model_exists files opt mt =
     (case opt_model_file opt of
        None \<Rightarrow> False
      | Some model_file \<Rightarrow>
          model_file \<noteq> [] \<and>
          ((isfile files (model_file @ ''.h5'') \<and> mt = Some NN) \<or>
           (list_all (isfile files) (ngrams_files model_file) \<and> mt = Some Ngrams)))"

text \<open>
  \<open>_init_from_scratch\<close>: the four \<open>if\<close> statements on the name; with any other name
  \<open>self.model\<close> is never assigned.
\<close>

definition init_from_scratch ::
  "('w, 'v) backend \<Rightarrow> ('w, 'v) insults_model \<Rightarrow> ('w, 'v) insults_model" where
  "init_from_scratch be self =
     (if model_name self = ''log_reg'' \<or> model_name self = ''svc'' \<or>
         model_name self = ''cnn_word'' \<or> model_name self = ''lstm_word''
      then self\<lparr>model_object := Some (new_model be (model_name self) (model_opt self))\<rparr>
      else self)"

text \<open>
  \<open>_init_from_saved\<close>: \<open>open\<close> raises on a missing file; a file that is not what is
  expected, and a weights file that is missing, fail inside the library.
\<close>

definition init_from_saved ::
  "('w, 'v) backend \<Rightarrow> (string \<Rightarrow> 'w saved_file option) \<Rightarrow> ('w, 'v) insults_model \<Rightarrow> string \<Rightarrow>
     error + ('w, 'v) insults_model" where
  "init_from_saved be files self0 fname =
     (case files (fname @ ''_opt.json'') of
        None \<Rightarrow> Inl FileNotFoundError
      | Some (JsonFile saved_opt) \<Rightarrow>
          (let self = self0\<lparr>model_opt := saved_opt\<rparr>
           in case model_type self of
                Some NN \<Rightarrow>
                  (case files (fname @ ''.h5'') of
                     Some (ObjectFile w) \<Rightarrow>
                       Inr (self\<lparr>model_object :=
                              Some (load_weights be
                                      (new_model be (model_name self) (model_opt self)) w)\<rparr>)
                   | _ \<Rightarrow> Inl ExternalError)
              | Some Ngrams \<Rightarrow>
                  (case files (fname @ ''_cls.pkl'') of
                     None \<Rightarrow> Inl FileNotFoundError
                   | Some (ObjectFile w) \<Rightarrow> Inr (self\<lparr>model_object := Some w\<rparr>)
                   | Some _ \<Rightarrow> Inl ExternalError)
              | None \<Rightarrow> Inr self)
      | Some _ \<Rightarrow> Inl ExternalError)"

text \<open>
  \<open>InsultsModel.__init__\<close>. The word index and the embedding dictionary are passed
  on to the library only. The counters are set after the model is built.
\<close>

definition init ::
  "('w, 'v) backend \<Rightarrow> (string \<Rightarrow> 'w saved_file option) \<Rightarrow> string \<Rightarrow> opt \<Rightarrow>
     error + ('w, 'v) insults_model" where
  "init be files name opt =
     (let self = \<lparr>model_name = name, model_type = model_type_of name, from_saved = False,
                  model_opt = opt, model_object = None, vectorizers = None, updates = 0\<rparr>
      in case (if saved_model_exists files opt (model_type self) then
                 init_from_saved be files (self\<lparr>from_saved := True\<rparr>)
                   (case opt_model_file opt of Some model_file \<Rightarrow> model_file | None \<Rightarrow> [])
               else
                 (case opt_pretrained_model (model_opt self) of
                    None \<Rightarrow> Inr (init_from_scratch be self)
                  | Some pretrained \<Rightarrow>
                      (if pretrained \<noteq> [] then
                         init_from_saved be files (self\<lparr>from_saved := True\<rparr>) pretrained
                       else Inr (init_from_scratch be self)))) of
           Inl e \<Rightarrow> Inl e
         | Inr self \<Rightarrow>
             Inr (self\<lparr>model_opt := (model_opt self)
                         \<lparr>opt_cuda := Some (\<not> opt_no_cuda (model_opt self))\<rparr>,
                       updates := 0\<rparr>))"


section \<open>Saving an InsultsModel\<close>


section \<open>Concrete inputs\<close>

text \<open>
  A stand-in for the library in the concrete runs below: a model object is a number,
  the score it gives to every question is the binary64 value nearest to it, and
  training on a batch of questions moves it to 3/4.
\<close>

definition constant_scores :: "real \<Rightarrow> batch \<Rightarrow> error + float64 list" where
  "constant_scores w b =
     (case b of
        Questions qs \<Rightarrow> Inr (map (\<lambda>_. rnd w) qs)
      | Labelled x y \<Rightarrow> Inr (map (\<lambda>_. rnd w) x)
      | _ \<Rightarrow> Inl ExternalError)"

definition constant_training :: "real \<Rightarrow> batch \<Rightarrow> batch \<Rightarrow> error + real" where
  "constant_training w x y =
     (case x of
        Questions qs \<Rightarrow> Inr (3 / 4)
      | _ \<Rightarrow> Inl ExternalError)"

definition constant_backend :: "(real, unit) backend" where
  "constant_backend =
     \<lparr>new_model = (\<lambda>name opt. 1 / 2),
      load_weights = (\<lambda>fresh w. w),
      predict_on_batch = constant_scores,
      predict_proba = (\<lambda>w v. constant_scores w),
      train_on_batch = constant_training,
      fit = (\<lambda>w v. constant_training w),
      roc_auc_score = (\<lambda>y y_pred. Inr (Fin 1)),
      binary_crossentropy = (\<lambda>y y_pred. Inr (Fin 0)),
      binary_accuracy = (\<lambda>y y_pred. Inr (Fin 1))\<rparr>"

definition no_options :: opt where
  "no_options =
     \<lparr>opt_model_file = None, opt_pretrained_model = None, opt_no_cuda = True,
      opt_cuda = None\<rparr>"

definition cnn_scoring :: "real \<Rightarrow> (real, unit) insults_model" where
  "cnn_scoring w =
     \<lparr>model_name = ''cnn_word'', model_type = Some NN, from_saved = False,
      model_opt = no_options, model_object = Some w, vectorizers = None, updates = 0\<rparr>"

definition said :: "string \<Rightarrow> observation" where
  "said t = \<lparr>obs_text = Some t, obs_labels = None, obs_episode_done = Some True\<rparr>"

definition taught :: "string \<Rightarrow> string \<Rightarrow> observation" where
  "taught t l = \<lparr>obs_text = Some t, obs_labels = Some [l], obs_episode_done = Some True\<rparr>"

definition silent :: observation where
  "silent = \<lparr>obs_text = None, obs_labels = None, obs_episode_done = Some True\<rparr>"

text \<open>An ensemble whose coefficients are the numbers written on the command line, read
  with \<open>float\<close>.\<close>

definition ensemble_of ::
  "bool \<Rightarrow> (real, unit) insults_model list \<Rightarrow> real list \<Rightarrow> (real, unit) ensemble_agent" where
  "ensemble_of shared ms coefs =
     \<lparr>agent_id = ''InsultsAgent'', episode_done = True, is_shared = shared,
      n_examples = 0, last_observation = None, models = ms, model_coefs = map rnd coefs\<rparr>"

definition insults_agent_of ::
  "bool \<Rightarrow> (real, unit) insults_model \<Rightarrow> (real, unit) insults_agent" where
  "insults_agent_of shared m =
     \<lparr>agent_id = ''InsultsAgent'', episode_done = True, is_shared = shared,
      n_examples = 0, last_observation = None, model = m\<rparr>"

definition one_epoch_agent_of ::
  "bool \<Rightarrow> (real, unit) insults_model \<Rightarrow> (real, unit) one_epoch_agent" where
  "one_epoch_agent_of shared m =
     \<lparr>agent_id = ''InsultsAgent'', episode_done = True, is_shared = shared,
      n_examples = 0, last_observation = None, model = m, all_observations = []\<rparr>"

text \<open>A directory that holds every file of the n-gram family for the model file
  \<open>m\<close> except the pickled classifier.\<close>

definition all_but_classifier :: "string \<Rightarrow> real saved_file option" where
  "all_but_classifier path =
     (if path = ''m_opt.json'' then Some (JsonFile no_options)
      else if path \<in> set (tl (tl (ngrams_files ''m''))) then Some OtherFile
      else None)"


section \<open>The words of the specification\<close>



text \<open>What one adapter predicts for the examples of a batch of observations.\<close>

definition model_prediction ::
  "('w, 'v) backend \<Rightarrow> observation list \<Rightarrow> ('w, 'v) insults_model \<Rightarrow>
     error + float64 list option" where
  "model_prediction be obs m =
     (case batchify m (not_none (map build_ex obs)) of
        Inl e \<Rightarrow> Inl e
      | Inr b \<Rightarrow> predict be m b)"



section \<open>Dialogue history\<close>

lemma observe_all_mid_episode:
  "single_episode obs \<Longrightarrow> \<not> episode_done self \<Longrightarrow>
   last_observation self = Some prev \<Longrightarrow> obs_text prev = Some acc \<Longrightarrow>
   stored_text (observe_all self obs) = Some (acc @ [CHR 0x0A] @ join [CHR 0x0A] (texts_of obs))"
proof (induction obs arbitrary: self prev acc rule: single_episode.induct)
  case 1
  then show ?case by simp
next
  case (2 ob)
  then show ?case
    by (auto simp: observe_def stored_text_def texts_of_def)
next
  case (3 ob ob' obs)
  from "3.prems" obtain t where t: "obs_text ob = Some t"
    and d: "obs_episode_done ob = Some False" and rest: "single_episode (ob' # obs)"
    by auto
  let ?ob = "ob\<lparr>obs_text := Some (acc @ [CHR 0x0A] @ t)\<rparr>"
  let ?self = "self\<lparr>last_observation := Some ?ob, episode_done := False\<rparr>"
  have step: "snd (observe self ob) = ?self"
    using "3.prems" t d by (simp add: observe_def)
  have "stored_text (observe_all ?self (ob' # obs)) =
        Some ((acc @ [CHR 0x0A] @ t) @ [CHR 0x0A] @ join [CHR 0x0A] (texts_of (ob' # obs)))"
    by (rule "3.IH" [OF rest, where prev = ?ob]) simp_all
  then show ?case
    using step t by (simp add: texts_of_def)
qed

lemma observe_all_from_boundary:
  "episode_done self \<Longrightarrow> single_episode obs \<Longrightarrow>
   stored_text (observe_all self obs) = Some (join [CHR 0x0A] (texts_of obs))"
proof (induction obs rule: single_episode.induct)
  case 1
  then show ?case by simp
next
  case (2 ob)
  then show ?case
    by (auto simp: observe_def stored_text_def texts_of_def)
next
  case (3 ob ob' obs)
  from "3.prems" obtain t where t: "obs_text ob = Some t"
    and d: "obs_episode_done ob = Some False" and rest: "single_episode (ob' # obs)"
    by auto
  let ?self = "self\<lparr>last_observation := Some ob, episode_done := False\<rparr>"
  have step: "snd (observe self ob) = ?self"
    using "3.prems" d by (simp add: observe_def)
  have "stored_text (observe_all ?self (ob' # obs)) =
        Some (t @ [CHR 0x0A] @ join [CHR 0x0A] (texts_of (ob' # obs)))"
    by (rule observe_all_mid_episode [OF rest, where prev = ob]) (simp_all add: t)
  then show ?case
    using step t by (simp add: texts_of_def)
qed

lemma act_question_is_stored_text: "act_question self = stored_text self"
  by (simp add: act_question_def stored_text_def build_ex_def split: option.splits)

text \<open>
  C4. From an agent at an episode boundary (\<open>episode_done\<close> true, as \<open>__init__\<close>
  leaves it and as an observation that ends an episode leaves it), after the
  observations of one episode have been observed in order, the stored text is the
  newline-join of the texts of all the turns, in the order observed, and so is the
  question that \<open>act\<close> builds from the stored observation for the final turn.
\<close>

theorem observe_history_is_join:
  "episode_done self \<Longrightarrow> single_episode obs \<Longrightarrow>
   stored_text (observe_all self obs) = Some (join [CHR 0x0A] (texts_of obs)) \<and>
   act_question (observe_all self obs) = Some (join [CHR 0x0A] (texts_of obs))"
  by (simp add: observe_all_from_boundary act_question_is_stored_text)

theorem observe_history_is_join_witness:
  "episode_done
     \<lparr>agent_id = ''InsultsAgent'', episode_done = True, is_shared = False,
      n_examples = 0, last_observation = None\<rparr> \<and>
   single_episode
     [\<lparr>obs_text = Some ''hi'', obs_labels = None, obs_episode_done = Some False\<rparr>,
      \<lparr>obs_text = Some ''you'', obs_labels = None, obs_episode_done = Some False\<rparr>,
      \<lparr>obs_text = Some ''bye'', obs_labels = None, obs_episode_done = Some True\<rparr>] \<and>
   stored_text
     (observe_all
        \<lparr>agent_id = ''InsultsAgent'', episode_done = True, is_shared = False,
         n_examples = 0, last_observation = None\<rparr>
        [\<lparr>obs_text = Some ''hi'', obs_labels = None, obs_episode_done = Some False\<rparr>,
         \<lparr>obs_text = Some ''you'', obs_labels = None, obs_episode_done = Some False\<rparr>,
         \<lparr>obs_text = Some ''bye'', obs_labels = None, obs_episode_done = Some True\<rparr>])
   = Some (''hi'' @ [CHR 0x0A] @ ''you'' @ [CHR 0x0A] @ ''bye'') \<and>
   act_question
     (observe_all
        \<lparr>agent_id = ''InsultsAgent'', episode_done = True, is_shared = False,
         n_examples = 0, last_observation = None\<rparr>
        [\<lparr>obs_text = Some ''hi'', obs_labels = None, obs_episode_done = Some False\<rparr>,
         \<lparr>obs_text = Some ''you'', obs_labels = None, obs_episode_done = Some False\<rparr>,
         \<lparr>obs_text = Some ''bye'', obs_labels = None, obs_episode_done = Some True\<rparr>])
   = Some (''hi'' @ [CHR 0x0A] @ ''you'' @ [CHR 0x0A] @ ''bye'')"
  using observe_history_is_join
    [of "\<lparr>agent_id = ''InsultsAgent'', episode_done = True, is_shared = False,
          n_examples = 0, last_observation = None\<rparr>"
        "[\<lparr>obs_text = Some ''hi'', obs_labels = None, obs_episode_done = Some False\<rparr>,
          \<lparr>obs_text = Some ''you'', obs_labels = None, obs_episode_done = Some False\<rparr>,
          \<lparr>obs_text = Some ''bye'', obs_labels = None, obs_episode_done = Some True\<rparr>]"]
  by (simp add: texts_of_def)


section \<open>Evaluating the rounding\<close>

lemma bit_length_numeral:
  "bit_length (numeral k) = Suc (bit_length (numeral k div 2))"
  "bit_length 0 = 0"
  "bit_length 1 = 1"
  "bit_length (Suc 0) = 1"
  by (simp_all add: bit_length.simps [of "numeral k"] bit_length.simps [of 0]
        bit_length.simps [of 1] bit_length.simps [of "Suc 0"])

lemmas fl_eval =
  rnd_def exponent_def pow2_def round_half_even_def signed_inf_def py_sum_def Let_def
  bit_length_numeral

lemmas fixture_defs =
  constant_backend_def constant_scores_def constant_training_def cnn_scoring_def
  said_def taught_def silent_def ensemble_of_def insults_agent_of_def one_epoch_agent_of_def
  no_options_def

lemmas run_defs =
  ensemble_batch_act_def insults_batch_act_def one_epoch_batch_act_def
  new_replies_def build_ex_def valid_inds_of_def not_none_def batchify_def
  batchify_branch_def predict_def update_def unpack_def reply_with_def
  weighted_sum_def predictions2text_def Let_def

section \<open>The ensemble's combined score\<close>

lemma scatter_length:
  "scatter inds ps predictions = Inr predictions' \<Longrightarrow> length predictions' = length predictions"
  by (induction inds ps predictions rule: scatter.induct) auto

lemma scatter_other:
  "scatter inds ps predictions = Inr predictions' \<Longrightarrow> i \<notin> set inds \<Longrightarrow>
   predictions' ! i = predictions ! i"
  by (induction inds ps predictions rule: scatter.induct) auto




lemma valid_inds_member:
  "i \<in> set (valid_inds_of examples) \<longleftrightarrow> i < length examples \<and> examples ! i \<noteq> None"
  by (auto simp: valid_inds_of_def)


lemma run_models_length:
  "run_models be obs ms predictions = Inr predictions' \<Longrightarrow>
   length predictions' = length predictions"
proof (induction ms arbitrary: predictions)
  case Nil
  then show ?case by simp
next
  case (Cons m ms)
  then show ?case
    by (auto simp: Let_def split: sum.splits option.splits dest: scatter_length)
qed

lemma run_models_other:
  "run_models be obs ms predictions = Inr predictions' \<Longrightarrow>
   i \<notin> set (valid_inds_of (map build_ex obs)) \<Longrightarrow> predictions' ! i = predictions ! i"
proof (induction ms arbitrary: predictions)
  case Nil
  then show ?case by simp
next
  case (Cons m ms)
  then show ?case
    by (auto simp: Let_def split: sum.splits option.splits dest: scatter_other)
qed


lemma combine_length:
  "combine coefs rs pss = Inr rs' \<Longrightarrow> length rs' = length rs"
  by (induction coefs rs pss arbitrary: rs' rule: combine.induct)
     (auto split: if_splits sum.splits)

lemma combine_ids:
  "combine coefs rs pss = Inr rs' \<Longrightarrow> map reply_id rs' = map reply_id rs"
  by (induction coefs rs pss arbitrary: rs' rule: combine.induct)
     (auto split: if_splits sum.splits)


lemma combine_nth_empty:
  "combine coefs rs pss = Inr rs' \<Longrightarrow> i < length rs \<Longrightarrow> i < length pss \<Longrightarrow>
   pss ! i = [] \<Longrightarrow> rs' ! i = rs ! i"
proof (induction coefs rs pss arbitrary: rs' i rule: combine.induct)
  case (1 coefs r rs ps pss)
  show ?case
  proof (cases i)
    case 0
    with "1.prems" show ?thesis
      by (auto split: if_splits sum.splits)
  next
    case (Suc k)
    with "1.prems" "1.IH" show ?thesis
      by (auto split: if_splits sum.splits)
  qed
qed simp_all












section \<open>The reply list of InsultsAgent\<close>

lemma write_replies_length:
  "write_replies inds ps rs = Inr rs' \<Longrightarrow> length rs' = length rs"
  by (induction inds ps rs rule: write_replies.induct) auto

lemma map_reply_id_update:
  "map reply_id (rs[i := (rs ! i)\<lparr>reply_text := t, reply_score := sc\<rparr>]) = map reply_id rs"
proof (cases "i < length rs")
  case True
  then show ?thesis
    by (simp add: map_update list_update_same_conv)
next
  case False
  then show ?thesis
    by (simp add: list_update_beyond)
qed

lemma write_replies_ids:
  "write_replies inds ps rs = Inr rs' \<Longrightarrow> map reply_id rs' = map reply_id rs"
  by (induction inds ps rs rule: write_replies.induct) (auto simp: map_reply_id_update)

lemma write_replies_other:
  "write_replies inds ps rs = Inr rs' \<Longrightarrow> i \<notin> set inds \<Longrightarrow> rs' ! i = rs ! i"
  by (induction inds ps rs rule: write_replies.induct) auto



lemma write_replies_returns:
  "length ps \<le> length inds \<Longrightarrow> \<exists>rs'. write_replies inds ps rs = Inr rs'"
  by (induction inds ps rs rule: write_replies.induct) auto

lemma ids_of_new_replies:
  "map reply_id rs = map reply_id (new_replies ident n) \<Longrightarrow>
   length rs = n \<and> list_all (\<lambda>r. reply_id r = ident) rs"
proof -
  assume eq: "map reply_id rs = map reply_id (new_replies ident n)"
  then have m: "map reply_id rs = replicate n ident"
    by (simp add: new_replies_def)
  then have "length rs = n"
    by (metis length_map length_replicate)
  moreover have "list_all (\<lambda>r. reply_id r = ident) rs"
  proof -
    have "\<forall>x \<in> set (map reply_id rs). x = ident"
      using m by simp
    then show ?thesis
      by (simp add: list_all_iff)
  qed
  ultimately show ?thesis by simp
qed

lemma new_replies_nth:
  "i < n \<Longrightarrow> new_replies ident n ! i = \<lparr>reply_id = ident, reply_text = None, reply_score = None\<rparr>"
  by (simp add: new_replies_def)

lemma reply_with_ids:
  "reply_with inds rs r = Inr rs' \<Longrightarrow> map reply_id rs' = map reply_id rs"
  by (auto simp: reply_with_def split: sum.splits option.splits dest: write_replies_ids)


section \<open>Training or prediction\<close>


lemma insults_prediction_mode:
  assumes "\<not> is_shared self" and "obs_labels ob0 = None"
    and "batchify (model self) (not_none (map build_ex (ob0 # rest))) = Inr b"
  shows "insults_batch_act be self (ob0 # rest) =
           (reply_with (valid_inds_of (map build_ex (ob0 # rest)))
              (new_replies (agent_id self) (length (ob0 # rest)))
              (predict be (model self) b),
            self)"
  using assms by (simp add: insults_batch_act_def Let_def)








section \<open>Batches with no example\<close>

text \<open>
  C5 at batches that give no example. On the empty batch \<open>observations[0]\<close> raises
  in \<open>InsultsAgent\<close> and \<open>batch[0]\<close> raises in the ensemble; on a batch of two
  observations with no text \<open>batch[0]\<close> in \<open>_batchify\<close> raises in both. No reply list
  is returned.
\<close>

theorem batch_act_returns_no_list:
  "insults_batch_act constant_backend (insults_agent_of False (cnn_scoring (8 / 10))) [] =
     (Inl IndexError, insults_agent_of False (cnn_scoring (8 / 10))) \<and>
   insults_batch_act constant_backend (insults_agent_of False (cnn_scoring (8 / 10)))
     [silent, silent] =
     (Inl IndexError, insults_agent_of False (cnn_scoring (8 / 10))) \<and>
   ensemble_batch_act constant_backend (ensemble_of False [cnn_scoring (8 / 10)] [3]) [] =
     (Inl IndexError, ensemble_of False [cnn_scoring (8 / 10)] [3]) \<and>
   ensemble_batch_act constant_backend (ensemble_of False [cnn_scoring (8 / 10)] [3])
     [silent, silent] =
     (Inl IndexError, ensemble_of False [cnn_scoring (8 / 10)] [3])"
  by (simp add: fixture_defs run_defs)

section \<open>Observations with no text\<close>

text \<open>
  C6 at a batch whose only observation has no text: the example batch is empty,
  \<open>batch[0]\<close> in \<open>_batchify\<close> raises \<open>IndexError\<close>, and \<open>batch_act\<close> of
  \<open>InsultsAgent\<close> and of the ensemble raise instead of returning a reply with the
  identifier only.
\<close>

theorem batch_act_without_text_raises:
  "fst (insults_batch_act constant_backend (insults_agent_of False (cnn_scoring (8 / 10)))
          [silent]) = Inl IndexError \<and>
   fst (ensemble_batch_act constant_backend (ensemble_of False [cnn_scoring (8 / 10)] [3])
          [silent]) = Inl IndexError"
  by (simp add: fixture_defs run_defs)

lemma no_text_not_valid:
  "i < length obs \<Longrightarrow> obs_text (obs ! i) = None \<Longrightarrow>
   i \<notin> set (valid_inds_of (map build_ex obs))"
  by (simp add: valid_inds_member build_ex_def)

lemma ensemble_no_text_reply:
  assumes run: "ensemble_batch_act be self obs = (Inr replies, self')"
    and i: "i < length obs" and none: "obs_text (obs ! i) = None"
  shows "replies ! i = \<lparr>reply_id = agent_id self, reply_text = None, reply_score = None\<rparr>"
proof -
  from run obtain table where
    table: "run_models be obs (models self) (replicate (length obs) []) = Inr table"
    and comb: "combine (model_coefs self) (new_replies (agent_id self) (length obs)) table =
               Inr replies"
    by (auto simp: ensemble_batch_act_def Let_def split: if_splits sum.splits)
  have len: "length table = length obs"
    using run_models_length [OF table] by simp
  have "table ! i = replicate (length obs) [] ! i"
    by (rule run_models_other [OF table no_text_not_valid [OF i none]])
  with i have empty: "table ! i = []" by simp
  have "replies ! i = new_replies (agent_id self) (length obs) ! i"
    by (rule combine_nth_empty [OF comb _ _ empty]) (simp_all add: new_replies_def i len)
  with i show ?thesis
    by (simp add: new_replies_nth)
qed

lemma insults_no_text_reply:
  assumes run: "insults_batch_act be self obs = (Inr replies, self')"
    and i: "i < length obs" and none: "obs_text (obs ! i) = None"
  shows "replies ! i = \<lparr>reply_id = agent_id self, reply_text = None, reply_score = None\<rparr>"
proof -
  from run obtain ps where
    w: "write_replies (valid_inds_of (map build_ex obs)) ps
          (new_replies (agent_id self) (length obs)) = Inr replies"
    by (auto simp: insults_batch_act_def Let_def reply_with_def
             split: if_splits sum.splits list.splits prod.splits option.splits)
  have "replies ! i = new_replies (agent_id self) (length obs) ! i"
    by (rule write_replies_other [OF w no_text_not_valid [OF i none]])
  with i show ?thesis
    by (simp add: new_replies_nth)
qed

text \<open>
  Whenever \<open>batch_act\<close> of the ensemble or of \<open>InsultsAgent\<close> returns, the reply at
  the position of an observation with no \<open>'text'\<close> holds the agent's identifier and
  neither a label nor a score.
\<close>

theorem no_text_reply_has_id_only:
  assumes "i < length obs" and "obs_text (obs ! i) = None"
  shows "(ensemble_batch_act be ens obs = (Inr replies, ens') \<longrightarrow>
            replies ! i = \<lparr>reply_id = agent_id ens, reply_text = None, reply_score = None\<rparr>) \<and>
         (insults_batch_act be ins obs = (Inr replies', ins') \<longrightarrow>
            replies' ! i = \<lparr>reply_id = agent_id ins, reply_text = None, reply_score = None\<rparr>)"
  using assms ensemble_no_text_reply insults_no_text_reply by blast

theorem no_text_reply_has_id_only_witness:
  "(1::nat) < length [said ''you fool'', silent] \<and>
   obs_text ([said ''you fool'', silent] ! 1) = None \<and>
   insults_batch_act constant_backend (insults_agent_of False (cnn_scoring (8 / 10)))
     [said ''you fool'', silent] =
   (Inr [\<lparr>reply_id = ''InsultsAgent'', reply_text = Some ''Insult'',
           reply_score = Some (Fin (3602879701896397 / 4503599627370496))\<rparr>,
         \<lparr>reply_id = ''InsultsAgent'', reply_text = None, reply_score = None\<rparr>],
    insults_agent_of False (cnn_scoring (8 / 10))) \<and>
   [\<lparr>reply_id = ''InsultsAgent'', reply_text = Some ''Insult'',
      reply_score = Some (Fin (3602879701896397 / 4503599627370496))\<rparr>,
     \<lparr>reply_id = ''InsultsAgent'', reply_text = None, reply_score = None\<rparr>] ! 1 =
   \<lparr>reply_id = agent_id (insults_agent_of False (cnn_scoring (8 / 10))),
     reply_text = None, reply_score = None\<rparr>"
proof -
  let ?ins = "insults_agent_of False (cnn_scoring (8 / 10))"
  let ?obs = "[said ''you fool'', silent]"
  let ?rs = "[\<lparr>reply_id = ''InsultsAgent'', reply_text = Some ''Insult'',
               reply_score = Some (Fin (3602879701896397 / 4503599627370496))\<rparr>,
             \<lparr>reply_id = ''InsultsAgent'', reply_text = None, reply_score = None\<rparr>]"
  have i: "(1::nat) < length ?obs" by simp
  have none: "obs_text (?obs ! 1) = None" by (simp add: silent_def)
  have e: "insults_batch_act constant_backend ?ins ?obs = (Inr ?rs, ?ins)"
    by (simp add: fixture_defs run_defs fl_eval)
  from no_text_reply_has_id_only [OF i none, where be = constant_backend and ins = ?ins
         and replies' = ?rs and ins' = ?ins and ens = "ensemble_of False [] []"
         and replies = "[]" and ens' = "ensemble_of False [] []"]
  have "?rs ! 1 = \<lparr>reply_id = agent_id ?ins, reply_text = None, reply_score = None\<rparr>"
    using e by blast
  with e i none show ?thesis by blast
qed

section \<open>Shared mode\<close>

lemma shared_mode_guard:
  "is_shared ens \<Longrightarrow> ensemble_batch_act be ens obs = (Inl RuntimeError, ens)"
  "is_shared ens \<Longrightarrow> ensemble_act be ens = (Inl RuntimeError, ens)"
  "is_shared ins \<Longrightarrow> insults_batch_act be ins obs = (Inl RuntimeError, ins)"
  "is_shared ins \<Longrightarrow> insults_act be ins = (Inl RuntimeError, ins)"
  by (simp_all add: ensemble_batch_act_def ensemble_act_def insults_batch_act_def
        insults_act_def first_reply_def split: option.splits)

lemma one_epoch_shared:
  "is_shared self \<Longrightarrow>
   one_epoch_batch_act be self obs =
     (Inl RuntimeError, self\<lparr>all_observations := all_observations self @ obs\<rparr>)"
  by (simp add: one_epoch_batch_act_def Let_def)

text \<open>
  C9 at a \<open>OneEpochAgent\<close> in shared mode: \<open>batch_act\<close> raises \<open>RuntimeError\<close>, and
  the agent it leaves has the batch appended to \<open>self.observations_\<close>.
\<close>

theorem one_epoch_shared_batch_act_appends:
  "one_epoch_batch_act constant_backend (one_epoch_agent_of True (cnn_scoring (8 / 10)))
     [said ''you fool''] =
   (Inl RuntimeError,
    (one_epoch_agent_of True (cnn_scoring (8 / 10)))\<lparr>all_observations := [said ''you fool'']\<rparr>)"
  by (simp add: one_epoch_shared one_epoch_agent_of_def)

text \<open>
  On an ensemble or an \<open>InsultsAgent\<close> in shared mode, \<open>batch_act\<close> and \<open>act\<close> raise
  \<open>RuntimeError\<close> and leave the agent as it was.
\<close>

theorem shared_mode_raises_unchanged:
  "(is_shared ens \<longrightarrow>
      ensemble_batch_act be ens obs = (Inl RuntimeError, ens) \<and>
      ensemble_act be ens = (Inl RuntimeError, ens)) \<and>
   (is_shared ins \<longrightarrow>
      insults_batch_act be ins obs = (Inl RuntimeError, ins) \<and>
      insults_act be ins = (Inl RuntimeError, ins))"
  by (simp add: shared_mode_guard)

theorem shared_mode_raises_unchanged_witness:
  "is_shared (ensemble_of True [cnn_scoring (8 / 10)] [3]) \<and>
   is_shared (insults_agent_of True (cnn_scoring (8 / 10))) \<and>
   ensemble_batch_act constant_backend (ensemble_of True [cnn_scoring (8 / 10)] [3])
     [said ''you fool''] = (Inl RuntimeError, ensemble_of True [cnn_scoring (8 / 10)] [3]) \<and>
   ensemble_act constant_backend (ensemble_of True [cnn_scoring (8 / 10)] [3]) =
     (Inl RuntimeError, ensemble_of True [cnn_scoring (8 / 10)] [3]) \<and>
   insults_batch_act constant_backend (insults_agent_of True (cnn_scoring (8 / 10)))
     [said ''you fool''] = (Inl RuntimeError, insults_agent_of True (cnn_scoring (8 / 10))) \<and>
   insults_act constant_backend (insults_agent_of True (cnn_scoring (8 / 10))) =
     (Inl RuntimeError, insults_agent_of True (cnn_scoring (8 / 10)))"
proof -
  have e: "is_shared (ensemble_of True [cnn_scoring (8 / 10)] [3])"
    and i: "is_shared (insults_agent_of True (cnn_scoring (8 / 10)))"
    by (simp_all add: ensemble_of_def insults_agent_of_def)
  from shared_mode_raises_unchanged
         [where ens = "ensemble_of True [cnn_scoring (8 / 10)] [3]"
            and ins = "insults_agent_of True (cnn_scoring (8 / 10))"
            and be = constant_backend and obs = "[said ''you fool'']"] e i
  show ?thesis by simp
qed

section \<open>The decision threshold\<close>

text \<open>A score of exactly 0.5 is labelled \<open>'Non-insult'\<close> and the binary64 value nearest
  0.50001 is labelled \<open>'Insult'\<close>.\<close>

theorem threshold_boundary:
  "predictions2text [rnd (1 / 2), rnd (50001 / 100000)] = [''Non-insult'', ''Insult'']"
  by (simp add: predictions2text_def fl_eval)

section \<open>When InsultsAgent answers\<close>

lemma valid_inds_count: "length (valid_inds_of xs) = length (not_none xs)"
proof (induction xs rule: rev_induct)
  case Nil
  then show ?case by (simp add: valid_inds_of_def not_none_def)
next
  case (snoc x xs)
  have "filter (\<lambda>i. (xs @ [x]) ! i \<noteq> None) [0..<length xs] =
        filter (\<lambda>i. xs ! i \<noteq> None) [0..<length xs]"
    by (rule filter_cong) (simp_all add: nth_append)
  then have "valid_inds_of (xs @ [x]) =
             valid_inds_of xs @ (if x \<noteq> None then [length xs] else [])"
    by (simp add: valid_inds_of_def)
  moreover have "not_none (xs @ [x]) = not_none xs @ (case x of None \<Rightarrow> [] | Some y \<Rightarrow> [y])"
    by (simp add: not_none_def)
  ultimately show ?case
    using snoc.IH by (simp split: option.splits)
qed

text \<open>
  On an \<open>InsultsAgent\<close> that is not shared, a batch with a text in some observation
  and labels in none, for which the adapter predicts one score for each example, is
  answered: \<open>batch_act\<close> returns a reply list as long as the batch, every reply
  carries the agent's identifier, and the agent is left as it was.
\<close>

theorem insults_batch_act_returns:
  assumes shared: "\<not> is_shared self"
    and some: "not_none (map build_ex obs) \<noteq> []"
    and labels: "list_all (\<lambda>ob. obs_labels ob = None) obs"
    and scores: "model_prediction be obs (model self) = Inr (Some ps)"
    and each: "length ps = length (not_none (map build_ex obs))"
  shows "\<exists>replies. insults_batch_act be self obs = (Inr replies, self) \<and>
           length replies = length obs \<and>
           list_all (\<lambda>r. reply_id r = agent_id self) replies"
proof -
  from some obtain ob0 rest where obs: "obs = ob0 # rest"
    by (cases obs) (auto simp: not_none_def)
  with labels have l0: "obs_labels ob0 = None" by simp
  let ?exs = "not_none (map build_ex obs)"
  let ?inds = "valid_inds_of (map build_ex obs)"
  from scores obtain b where b: "batchify (model self) ?exs = Inr b"
    and p: "predict be (model self) b = Inr (Some ps)"
    by (auto simp: model_prediction_def split: sum.splits)
  have "length ?inds = length ?exs"
    by (rule valid_inds_count)
  with each have "length ps \<le> length ?inds" by simp
  from write_replies_returns [OF this] obtain replies where
    w: "write_replies ?inds ps (new_replies (agent_id self) (length obs)) = Inr replies"
    by blast
  have run: "insults_batch_act be self obs = (Inr replies, self)"
    using insults_prediction_mode [OF shared l0, of rest b be] b p w
    by (simp add: obs reply_with_def)
  from w have "map reply_id replies = map reply_id (new_replies (agent_id self) (length obs))"
    by (rule write_replies_ids)
  from ids_of_new_replies [OF this] run show ?thesis by blast
qed

theorem insults_batch_act_returns_witness:
  "\<not> is_shared (insults_agent_of False (cnn_scoring (8 / 10))) \<and>
   not_none (map build_ex [said ''you fool'', silent]) \<noteq> [] \<and>
   list_all (\<lambda>ob. obs_labels ob = None) [said ''you fool'', silent] \<and>
   model_prediction constant_backend [said ''you fool'', silent]
     (model (insults_agent_of False (cnn_scoring (8 / 10)))) =
   Inr (Some [Fin (3602879701896397 / 4503599627370496)]) \<and>
   length [Fin (3602879701896397 / 4503599627370496)] =
   length (not_none (map build_ex [said ''you fool'', silent])) \<and>
   (\<exists>replies. insults_batch_act constant_backend
               (insults_agent_of False (cnn_scoring (8 / 10))) [said ''you fool'', silent] =
             (Inr replies, insults_agent_of False (cnn_scoring (8 / 10))) \<and>
             length replies = length [said ''you fool'', silent] \<and>
             list_all (\<lambda>r. reply_id r = agent_id (insults_agent_of False (cnn_scoring (8 / 10))))
               replies)"
proof -
  let ?self = "insults_agent_of False (cnn_scoring (8 / 10))"
  let ?obs = "[said ''you fool'', silent]"
  have a: "\<not> is_shared ?self"
    by (simp add: insults_agent_of_def)
  have b: "not_none (map build_ex ?obs) \<noteq> []"
    by (simp add: fixture_defs run_defs)
  have c: "list_all (\<lambda>ob. obs_labels ob = None) ?obs"
    by (simp add: said_def silent_def)
  have d: "model_prediction constant_backend ?obs (model ?self) =
             Inr (Some [Fin (3602879701896397 / 4503599627370496)])"
    by (simp add: model_prediction_def fixture_defs run_defs fl_eval)
  have e: "length [Fin (3602879701896397 / 4503599627370496)] =
             length (not_none (map build_ex ?obs))"
    by (simp add: fixture_defs run_defs)
  from insults_batch_act_returns [OF a b c d e] a b c d e show ?thesis
    by blast
qed


section \<open>Construction\<close>










text \<open>
  C8, as the code has it. For every model name other than \<open>cnn_word\<close>,
  \<open>lstm_word\<close>, \<open>log_reg\<close> and \<open>svc\<close>, constructing an adapter raises no error for
  the name: with no pretrained-model path it returns an adapter with no model type and
  no model object. Whenever construction returns, with or without such a path, the
  adapter has neither, no default model stands in, and its \<open>predict\<close> returns \<open>None\<close>.
\<close>

theorem init_unknown_name:
  assumes unknown: "name \<noteq> ''cnn_word''" "name \<noteq> ''lstm_word''" "name \<noteq> ''log_reg''"
    "name \<noteq> ''svc''"
  shows "(\<not> truthy (opt_pretrained_model opt) \<longrightarrow>
            init be files name opt =
              Inr \<lparr>model_name = name, model_type = None, from_saved = False,
                   model_opt = opt\<lparr>opt_cuda := Some (\<not> opt_no_cuda opt)\<rparr>,
                   model_object = None, vectorizers = None, updates = 0\<rparr>) \<and>
         (\<forall>m. init be files name opt = Inr m \<longrightarrow>
            model_type m = None \<and> model_object m = None \<and> predict be m b = Inr None)"
proof -
  have mt: "model_type_of name = None"
    using unknown by (simp add: model_type_of_def)
  have no: "\<not> saved_model_exists files opt None"
    by (simp add: saved_model_exists_def split: option.splits)
  have scratch: "\<not> truthy (opt_pretrained_model opt) \<Longrightarrow>
            init be files name opt =
              Inr \<lparr>model_name = name, model_type = None, from_saved = False,
                   model_opt = opt\<lparr>opt_cuda := Some (\<not> opt_no_cuda opt)\<rparr>,
                   model_object = None, vectorizers = None, updates = 0\<rparr>"
    using unknown mt no
    by (auto simp: init_def Let_def truthy_def init_from_scratch_def split: option.splits)
  have any: "init be files name opt = Inr m \<Longrightarrow>
             model_type m = None \<and> model_object m = None \<and> predict be m b = Inr None" for m
    using unknown mt no
    by (auto simp: init_def Let_def init_from_scratch_def init_from_saved_def predict_def
             split: option.splits if_splits sum.splits saved_file.splits)
  from scratch any show ?thesis by blast
qed

theorem init_unknown_name_witness:
  "''gru_word'' \<noteq> ''cnn_word'' \<and> ''gru_word'' \<noteq> ''lstm_word'' \<and> ''gru_word'' \<noteq> ''log_reg'' \<and>
   ''gru_word'' \<noteq> ''svc'' \<and>
   \<not> truthy (opt_pretrained_model (no_options\<lparr>opt_model_file := Some ''m''\<rparr>)) \<and>
   init constant_backend all_but_classifier ''gru_word''
     (no_options\<lparr>opt_model_file := Some ''m''\<rparr>) =
   Inr \<lparr>model_name = ''gru_word'', model_type = None, from_saved = False,
        model_opt = \<lparr>opt_model_file = Some ''m'', opt_pretrained_model = None,
                     opt_no_cuda = True, opt_cuda = Some False\<rparr>,
        model_object = None, vectorizers = None, updates = 0\<rparr> \<and>
   predict constant_backend
     \<lparr>model_name = ''gru_word'', model_type = None, from_saved = False,
      model_opt = \<lparr>opt_model_file = Some ''m'', opt_pretrained_model = None,
                   opt_no_cuda = True, opt_cuda = Some False\<rparr>,
      model_object = None, vectorizers = None, updates = 0\<rparr>
     (Questions [''you fool'']) = Inr None"
proof -
  let ?opt = "no_options\<lparr>opt_model_file := Some ''m''\<rparr>"
  have names: "''gru_word'' \<noteq> ''cnn_word''" "''gru_word'' \<noteq> ''lstm_word''"
    "''gru_word'' \<noteq> ''log_reg''" "''gru_word'' \<noteq> ''svc''"
    by simp_all
  have pre: "\<not> truthy (opt_pretrained_model ?opt)"
    by (simp add: truthy_def no_options_def)
  from init_unknown_name [OF names, where opt = ?opt and be = constant_backend
         and files = all_but_classifier and b = "Questions [''you fool'']"] pre
  show ?thesis
    using names by (simp add: no_options_def)
qed

text \<open>Constructing an adapter named \<open>bert\<close> returns an adapter.\<close>

theorem init_unknown_name_counterexample:
  "init constant_backend (\<lambda>_. None) ''bert'' no_options =
   Inr \<lparr>model_name = ''bert'', model_type = None, from_saved = False,
        model_opt = \<lparr>opt_model_file = None, opt_pretrained_model = None,
                     opt_no_cuda = True, opt_cuda = Some False\<rparr>,
        model_object = None, vectorizers = None, updates = 0\<rparr>"
  by (simp add: init_def Let_def saved_model_exists_def model_type_of_def
        init_from_scratch_def no_options_def)

section \<open>Save and load\<close>








end
